theory Spec2Isabelle
  imports Complex_Main
begin

section \<open>Configuration (interfaces Config and ConfigOptional)\<close>

datatype InsertPosition = BeforeBegin | AfterBegin | BeforeEnd | AfterEnd

datatype ImageSize = Original | Regular | Small

record Config =
  workId :: string
  showImageList :: bool
  imageListId :: string
  insertTarget :: string
  insertPostion :: InsertPosition
  imageNumber :: int
  imageSize :: ImageSize
  showDownloadBtn :: bool
  showBookmarkBtn :: bool
  autoStart :: bool
  showLoading :: bool

record ConfigOptional =
  workId_opt :: "string option"
  showImageList_opt :: "bool option"
  imageListId_opt :: "string option"
  insertTarget_opt :: "string option"
  insertPostion_opt :: "InsertPosition option"
  imageNumber_opt :: "int option"
  imageSize_opt :: "ImageSize option"
  showDownloadBtn_opt :: "bool option"
  showBookmarkBtn_opt :: "bool option"
  autoStart_opt :: "bool option"
  showLoading_opt :: "bool option"

text \<open>
  The default configuration of the class (field \<open>cfg\<close>). The default work id is
  \<open>Tools.getIllustId()\<close>, a helper that ImageViewer.ts imports: it is the parameter.
\<close>

definition default_cfg :: "string \<Rightarrow> Config" where
  "default_cfg illustId =
     \<lparr> workId = illustId, showImageList = False, imageListId = [], insertTarget = [],
       insertPostion = BeforeEnd, imageNumber = 2, imageSize = Original,
       showDownloadBtn = True, showBookmarkBtn = True, autoStart = False,
       showLoading = False \<rparr>"

definition no_options :: ConfigOptional where
  "no_options =
     \<lparr> workId_opt = None, showImageList_opt = None, imageListId_opt = None,
       insertTarget_opt = None, insertPostion_opt = None, imageNumber_opt = None,
       imageSize_opt = None, showDownloadBtn_opt = None, showBookmarkBtn_opt = None,
       autoStart_opt = None, showLoading_opt = None \<rparr>"

text \<open>\<open>Object.assign(this.cfg, cfg)\<close>: every property the caller gives replaces the default.\<close>

definition assign :: "Config \<Rightarrow> ConfigOptional \<Rightarrow> Config" where
  "assign c opt =
     \<lparr> workId = (case workId_opt opt of None \<Rightarrow> workId c | Some v \<Rightarrow> v),
       showImageList = (case showImageList_opt opt of None \<Rightarrow> showImageList c | Some v \<Rightarrow> v),
       imageListId = (case imageListId_opt opt of None \<Rightarrow> imageListId c | Some v \<Rightarrow> v),
       insertTarget = (case insertTarget_opt opt of None \<Rightarrow> insertTarget c | Some v \<Rightarrow> v),
       insertPostion = (case insertPostion_opt opt of None \<Rightarrow> insertPostion c | Some v \<Rightarrow> v),
       imageNumber = (case imageNumber_opt opt of None \<Rightarrow> imageNumber c | Some v \<Rightarrow> v),
       imageSize = (case imageSize_opt opt of None \<Rightarrow> imageSize c | Some v \<Rightarrow> v),
       showDownloadBtn = (case showDownloadBtn_opt opt of None \<Rightarrow> showDownloadBtn c | Some v \<Rightarrow> v),
       showBookmarkBtn = (case showBookmarkBtn_opt opt of None \<Rightarrow> showBookmarkBtn c | Some v \<Rightarrow> v),
       autoStart = (case autoStart_opt opt of None \<Rightarrow> autoStart c | Some v \<Rightarrow> v),
       showLoading = (case showLoading_opt opt of None \<Rightarrow> showLoading c | Some v \<Rightarrow> v) \<rparr>"

section \<open>Artwork metadata (ArtworkData, as far as the viewer reads it)\<close>

record ArtworkUrls =
  original :: string
  regular :: string
  small :: string
  thumb :: string

record ArtworkBody =
  illustType :: int
  pageCount :: int
  urls :: ArtworkUrls

record ArtworkData =
  body :: ArtworkBody

text \<open>\<open>body.urls[this.cfg.imageSize]\<close>\<close>

fun urls_at :: "ArtworkUrls \<Rightarrow> ImageSize \<Rightarrow> string" where
  "urls_at u Original = original u"
| "urls_at u Regular = regular u"
| "urls_at u Small = small u"

section \<open>Strings\<close>

text \<open>
  \<open>String.prototype.replace\<close> with a string pattern: the first occurrence of the
  pattern is replaced, a string without the pattern is returned as it is. (The
  replacement strings of this program, \<open>'p' + index\<close>, hold no \<open>$\<close>, so none of the
  replacement patterns of JavaScript applies.)
\<close>

fun replace :: "string \<Rightarrow> string \<Rightarrow> string \<Rightarrow> string" where
  "replace pat rep [] = (if pat = [] then rep else [])"
| "replace pat rep (c # cs) =
     (if take (length pat) (c # cs) = pat then rep @ drop (length pat) (c # cs)
      else c # replace pat rep cs)"

text \<open>Whether the pattern occurs in the string (\<open>String.prototype.includes\<close>).\<close>

fun occurs :: "string \<Rightarrow> string \<Rightarrow> bool" where
  "occurs pat [] = (pat = [])"
| "occurs pat (c # cs) = (take (length pat) (c # cs) = pat \<or> occurs pat cs)"

text \<open>The decimal digits of a non-negative integer, as \<open>'p' + index\<close> writes them.\<close>

fun digits :: "nat \<Rightarrow> string" where
  "digits n =
     (if n < 10 then [''0123456789'' ! n]
      else digits (n div 10) @ [''0123456789'' ! (n mod 10)])"

declare digits.simps [simp del]

definition page_marker :: "nat \<Rightarrow> string" where
  "page_marker index = ''p'' @ digits index"

section \<open>The state: the instance, the page around it, and what it did\<close>

type_synonym element = nat

text \<open>
  What \<open>document.querySelector\<close> gives for a selector: an element, \<open>null\<close>, or a
  thrown \<open>SyntaxError\<close> (a selector the browser cannot parse).
\<close>

datatype query_result = QFound element | QNull | QThrows

datatype error = SyntaxError | FetchRejected | TypeError

datatype callback = CbCreateImageList | CbFullscreenSettle

text \<open>
  The keys of the localized messages (\<open>lang.transl\<close>): task not finished, download
  request sent, bookmark, bookmarked.
\<close>

datatype message = MsgTaskNotFinished | MsgDownloadRequestSent | MsgBookmark | MsgBookmarked

text \<open>
  Every call the viewer makes on a collaborator or on the page, in order; and every
  exception a listener throws and nothing catches (\<open>Uncaught\<close>), as the browser reports it.
\<close>

datatype effect =
    SetTimeout callback nat
  | GetArtworkData string
  | LoadingShow bool
  | ThemeRegister
  | InsertAdjacentElement element InsertPosition
  | NewViewer
  | ViewerShow
  | NewImage string
  | ZoomTo rat
  | Move rat rat
  | Prev bool
  | Next bool
  | StopPropagation
  | RequestFullscreen
  | ExitFullscreen
  | ToggleBottomBtns bool
  | AddDownloadBtn
  | AddBookmarkBtn
  | BindOneToOne
  | ToastError message
  | ToastShow message
  | ToastSuccess message
  | EvtFire string "(string \<times> string) list"
  | BookmarkAdd string string
  | ScrollTo int int
  | Uncaught error

text \<open>
  The widget built by \<open>new Viewer(this.viewerUl, ...)\<close>: its \<open>viewed\<close> option is a
  closure over the two arguments of \<open>configureViewer\<close>.
\<close>

record Viewer =
  v_pageCount :: int
  v_firstBigImgURL :: string

record world =
  \<comment> \<open>the instance\<close>
  cfg :: Config
  myViewer :: "Viewer option"
  warpper_id :: string
  warpper_display :: string
  viewerUl_innerHTML :: string
  showing :: bool
  scrollX :: int
  scrollY :: int
  workData :: "ArtworkData option"
  \<comment> \<open>the page and the shared modules\<close>
  document :: "string \<Rightarrow> query_result"
  loading_show :: bool
  busy :: bool
  downloadFromViewer :: bool
  window_scrollX :: int
  window_scrollY :: int
  fullscreenElement :: bool
  image_height :: int
  innerHeight :: int
  \<comment> \<open>the calls made so far\<close>
  trace :: "effect list"

definition emit :: "effect \<Rightarrow> world \<Rightarrow> world" where
  "emit e s = s\<lparr>trace := trace s @ [e]\<rparr>"

text \<open>A fresh instance (the field initialisers of the class) on a page.\<close>

definition new_instance :: "Config \<Rightarrow> (string \<Rightarrow> query_result) \<Rightarrow> world" where
  "new_instance c d =
     \<lparr> cfg = c, myViewer = None, warpper_id = [], warpper_display = [],
       viewerUl_innerHTML = [], showing = False, scrollX = 0, scrollY = 0,
       workData = None, document = d, loading_show = False, busy = False,
       downloadFromViewer = False, window_scrollX = 0, window_scrollY = 0,
       fullscreenElement = False, image_height = 0, innerHeight = 0, trace = [] \<rparr>"

text \<open>
  Two pages. On the first no selector finds an element; the second holds the container
  of the widget and its 1:1 control. On the empty selector \<open>querySelector\<close> throws a
  \<open>SyntaxError\<close>, in every browser.
\<close>

definition page_without_elements :: "string \<Rightarrow> query_result" where
  "page_without_elements sel = (if sel = [] then QThrows else QNull)"


text \<open>
  A synchronous piece of code either finishes or throws; the changes it made before it
  threw stay, so a thrown error comes with the state it was thrown in. A listener's
  exception is caught by nobody: the browser reports it and goes on.
\<close>

type_synonym outcome = "(error \<times> world) + world"

definition and_then :: "outcome \<Rightarrow> (world \<Rightarrow> outcome) \<Rightarrow> outcome" where
  "and_then r f = (case r of Inl x \<Rightarrow> Inl x | Inr s \<Rightarrow> f s)"

definition uncaught :: "outcome \<Rightarrow> world" where
  "uncaught r = (case r of Inl (e, s) \<Rightarrow> emit (Uncaught e) s | Inr s \<Rightarrow> s)"

section \<open>createImageList\<close>

text \<open>
  The thumbnail markup of one page. \<open>conv\<close> is \<open>Tools.convertArtworkThumbURL\<close>, a
  helper that ImageViewer.ts imports: it is a parameter.
\<close>

definition li_markup :: "string \<Rightarrow> string \<Rightarrow> string" where
  "li_markup src data_src =
     ''<li><img src=\"'' @ src @ ''\" data-src=\"'' @ data_src @ ''\"></li>''"

definition thumb_str :: "(string \<Rightarrow> nat \<Rightarrow> string) \<Rightarrow> ArtworkBody \<Rightarrow> string \<Rightarrow> nat \<Rightarrow> string" where
  "thumb_str conv b useBigURL index =
     li_markup (conv (thumb (urls b)) index) (replace ''p0'' (page_marker index) useBigURL)"

text \<open>The loop \<open>for (let index = 0; index < body.pageCount; index++) html.push(str)\<close>.\<close>

function thumb_loop ::
  "(string \<Rightarrow> nat \<Rightarrow> string) \<Rightarrow> ArtworkBody \<Rightarrow> string \<Rightarrow> nat \<Rightarrow> string list \<Rightarrow> string list" where
  "thumb_loop conv b useBigURL index html =
     (if int index < pageCount b
      then thumb_loop conv b useBigURL (Suc index) (html @ [thumb_str conv b useBigURL index])
      else html)"
  by pat_completeness auto
termination
  by (relation "measure (\<lambda>(conv, b, useBigURL, index, html). nat (pageCount b - int index))") auto

declare thumb_loop.simps [simp del]

text \<open>\<open>body.urls[this.cfg.imageSize] || body.urls.original\<close>: the empty string is falsy.\<close>

definition big_url :: "Config \<Rightarrow> ArtworkBody \<Rightarrow> string" where
  "big_url c b =
     (if urls_at (urls b) (imageSize c) \<noteq> [] then urls_at (urls b) (imageSize c)
      else original (urls b))"

text \<open>
  \<open>configureViewer\<close>. The listeners it adds to \<open>viewerUl\<close> and the \<open>viewed\<close> option are
  the handlers defined below (\<open>on_shown\<close>, \<open>on_hide\<close>, \<open>on_viewed\<close>, \<open>on_hidden\<close>,
  \<open>viewed_option\<close>): they run when the widget exists.
\<close>

definition configureViewer :: "int \<Rightarrow> string \<Rightarrow> world \<Rightarrow> world" where
  "configureViewer pageCount' firstBigImgURL s =
     (let s1 = emit NewViewer
                 (s\<lparr>myViewer := Some \<lparr>v_pageCount = pageCount', v_firstBigImgURL = firstBigImgURL\<rparr>\<rparr>);
          s2 = emit (NewImage firstBigImgURL) s1
      in if autoStart (cfg s2) then emit ViewerShow s2 else s2)"

text \<open>
  \<open>createImageList\<close> up to its \<open>await\<close>: either it schedules itself again and returns,
  or it builds the detached container and asks for the metadata.
\<close>

datatype progress = Rescheduled | AwaitingData

definition prepare :: "world \<Rightarrow> world" where
  "prepare s =
     (let s1 = s\<lparr>viewerUl_innerHTML := [], warpper_display := ''none'', warpper_id := []\<rparr>;
          s2 = (if imageListId (cfg s1) \<noteq> [] then s1\<lparr>warpper_id := imageListId (cfg s1)\<rparr> else s1);
          s3 = (if showLoading (cfg s2) then emit (LoadingShow True) (s2\<lparr>loading_show := True\<rparr>) else s2)
      in emit (GetArtworkData (workId (cfg s3))) s3)"

definition createImageList :: "world \<Rightarrow> error + (progress \<times> world)" where
  "createImageList s =
     (if showImageList (cfg s) then
        (case document s (insertTarget (cfg s)) of
           QThrows \<Rightarrow> Inl SyntaxError
         | QNull \<Rightarrow> Inr (Rescheduled, emit (SetTimeout CbCreateImageList 300) s)
         | QFound t \<Rightarrow> Inr (AwaitingData, prepare s))
      else Inr (AwaitingData, prepare s))"

text \<open>The block \<open>if (this.cfg.showImageList) { ... }\<close> that puts the list on the page.\<close>

definition mount :: "world \<Rightarrow> error + world" where
  "mount s =
     (if showImageList (cfg s) then
        (let s1 = (emit ThemeRegister s)\<lparr>warpper_display := ''block''\<rparr>
         in case document s1 (insertTarget (cfg s1)) of
              QThrows \<Rightarrow> Inl SyntaxError
            | QNull \<Rightarrow> Inr s1
            | QFound target \<Rightarrow> Inr (emit (InsertAdjacentElement target BeforeBegin) s1))
      else Inr s)"

text \<open>
  \<open>createImageList\<close> from its \<open>await\<close> on: \<open>r\<close> is how \<open>API.getArtworkData\<close> settled (a
  rejection is thrown on).
\<close>

definition createImageList_resume ::
  "(string \<Rightarrow> nat \<Rightarrow> string) \<Rightarrow> error + ArtworkData \<Rightarrow> world \<Rightarrow> error + world" where
  "createImageList_resume conv r s =
     (case r of
        Inl e \<Rightarrow> Inl e
      | Inr d \<Rightarrow>
          (let s1 = s\<lparr>workData := Some d\<rparr>; b = body d in
           if illustType b = 0 \<or> illustType b = 1 \<or> illustType b = 2 then
             if pageCount b \<ge> imageNumber (cfg s1) then
               (let useBigURL = big_url (cfg s1) b;
                    html = thumb_loop conv b useBigURL 0 [];
                    s2 = s1\<lparr>viewerUl_innerHTML := concat html\<rparr>;
                    s3 = (if showLoading (cfg s2)
                          then emit (LoadingShow False) (s2\<lparr>loading_show := False\<rparr>) else s2)
                in case mount s3 of
                     Inl e \<Rightarrow> Inl e
                   | Inr s4 \<Rightarrow> Inr (configureViewer (pageCount b) useBigURL s4))
             else Inr s1
           else Inr s1))"

text \<open>
  The retry timer: \<open>ds\<close> are the pages the later runs of \<open>createImageList\<close> see, one per
  timer that fires. A run that re-schedules itself is followed by the next one.
\<close>

fun retry :: "(string \<Rightarrow> query_result) list \<Rightarrow> world \<Rightarrow> error + (progress \<times> world)" where
  "retry [] s = createImageList s"
| "retry (d # ds) s =
     (case createImageList s of
        Inr (Rescheduled, s') \<Rightarrow> retry ds (s'\<lparr>document := d\<rparr>)
      | r \<Rightarrow> r)"

section \<open>Actions\<close>

definition isFullscreen :: "world \<Rightarrow> bool" where
  "isFullscreen s = fullscreenElement s"

text \<open>
  \<open>toggleBottomBtns\<close> starts with
  \<open>document.querySelector('.viewer-container')!.classList.remove(...)\<close>: with no container
  in the page this is a property read on \<open>null\<close>, a \<open>TypeError\<close>. The elements it shows or
  hides after that are each tested before use.
\<close>

definition toggleBottomBtns :: "bool \<Rightarrow> world \<Rightarrow> outcome" where
  "toggleBottomBtns b s =
     (case document s ''.viewer-container'' of
        QFound container \<Rightarrow> Inr (emit (ToggleBottomBtns b) s)
      | QNull \<Rightarrow> Inl (TypeError, s)
      | QThrows \<Rightarrow> Inl (SyntaxError, s))"

text \<open>
  \<open>addBtn\<close> takes the last \<open>.viewer-container\<close> of the page and calls \<open>querySelector\<close> on
  it: with no container \<open>last\<close> is \<open>undefined\<close> and the call is a \<open>TypeError\<close>. Otherwise
  the button is looked for and, if new, put after the 1:1 control: the effect \<open>btn\<close>.
\<close>

definition addBtn :: "effect \<Rightarrow> world \<Rightarrow> outcome" where
  "addBtn btn s =
     (case document s ''.viewer-container'' of
        QFound lastContainer \<Rightarrow> Inr (emit btn s)
      | QNull \<Rightarrow> Inl (TypeError, s)
      | QThrows \<Rightarrow> Inl (SyntaxError, s))"

definition addDownloadBtn :: "world \<Rightarrow> outcome" where
  "addDownloadBtn s = addBtn AddDownloadBtn s"

definition addBookmarkBtn :: "world \<Rightarrow> outcome" where
  "addBookmarkBtn s = addBtn AddBookmarkBtn s"

text \<open>
  \<open>handleCenter\<close>: \<open>img.height\<close> and \<open>window.innerHeight\<close> are whole numbers of pixels,
  their halves are exact.
\<close>

definition handleCenter :: "world \<Rightarrow> world" where
  "handleCenter s =
     (case workData s of
        None \<Rightarrow> s
      | Some d \<Rightarrow>
          if illustType (body d) = 1 then
            (if image_height s \<le> innerHeight s then s
             else emit (Move 0 (of_int (image_height s) / 2 - of_int (innerHeight s) / 2)) s)
          else s)"

text \<open>
  \<open>enterFullScreenMode\<close> up to the request; when the browser grants it, the callback
  sets a timer of 150 ms, and the timer zooms and centres.
\<close>

definition enterFullScreenMode :: "world \<Rightarrow> outcome" where
  "enterFullScreenMode s =
     and_then (toggleBottomBtns False s) (\<lambda>s1. Inr (emit RequestFullscreen s1))"

definition fullscreen_granted :: "world \<Rightarrow> world" where
  "fullscreen_granted s = emit (SetTimeout CbFullscreenSettle 150) s"

definition fullscreen_settle :: "world \<Rightarrow> world" where
  "fullscreen_settle s = handleCenter (emit (ZoomTo 1) s)"

definition download :: "world \<Rightarrow> world" where
  "download s =
     (if busy s then emit (ToastError MsgTaskNotFinished) s
      else emit (ToastShow MsgDownloadRequestSent)
             (emit (EvtFire ''crawlIdList'' [(workId (cfg s), ''unknown'')])
                (s\<lparr>downloadFromViewer := True\<rparr>)))"

text \<open>\<open>addBookmark\<close> up to its \<open>await\<close>, and what follows when \<open>Bookmark.add\<close> is done.\<close>

definition addBookmark :: "world \<Rightarrow> world" where
  "addBookmark s = emit (BookmarkAdd (workId (cfg s)) ''illusts'') (emit (ToastShow MsgBookmark) s)"

definition addBookmark_resume :: "world \<Rightarrow> world" where
  "addBookmark_resume s = emit (ToastSuccess MsgBookmarked) s"

section \<open>bindEvents: the key handlers\<close>

record KeyboardEvent =
  code :: string
  altKey :: bool

definition keydown_F :: "KeyboardEvent \<Rightarrow> world \<Rightarrow> world" where
  "keydown_F event s =
     (if code event = ''KeyF'' then
        (if showing s then
           (if isFullscreen s then emit ExitFullscreen s else uncaught (enterFullScreenMode s))
         else s)
      else s)"

definition keydown_AltB :: "KeyboardEvent \<Rightarrow> world \<Rightarrow> world" where
  "keydown_AltB event s =
     (if altKey event \<and> code event = ''KeyB'' then
        (if showing s then addBookmark s else s)
      else s)"

definition keydown_D :: "KeyboardEvent \<Rightarrow> world \<Rightarrow> world" where
  "keydown_D event s =
     (if code event = ''KeyD'' then
        (if showing s then download s else s)
      else s)"

definition keydown_arrows :: "KeyboardEvent \<Rightarrow> world \<Rightarrow> world" where
  "keydown_arrows event s =
     (if code event = ''ArrowLeft'' \<or> code event = ''ArrowRight'' then
        (if showing s then
           (let s1 = emit StopPropagation s
            in case myViewer s1 of
                 None \<Rightarrow> emit (Uncaught TypeError) s1
               | Some v \<Rightarrow>
                   if code event = ''ArrowLeft'' then emit (Prev True) s1 else emit (Next True) s1)
         else s)
      else s)"

text \<open>
  A key press: the listener on \<open>window\<close> is a capturing one and runs first; the three
  listeners on \<open>document\<close> run next, in the order they were added, unless the first
  stopped the propagation.
\<close>

definition keydown :: "KeyboardEvent \<Rightarrow> world \<Rightarrow> world" where
  "keydown event s =
     (let s1 = keydown_arrows event s
      in if StopPropagation \<in> set (drop (length (trace s)) (trace s1)) then s1
         else keydown_D event (keydown_AltB event (keydown_F event s1)))"

section \<open>configureViewer: the handlers of the widget's events\<close>

definition on_shown :: "world \<Rightarrow> world" where
  "on_shown s =
     (let s1 = s\<lparr>showing := True, scrollX := window_scrollX s, scrollY := window_scrollY s\<rparr>
      in uncaught
           (and_then (if showDownloadBtn (cfg s1) then addDownloadBtn s1 else Inr s1) (\<lambda>s2.
            and_then (if showBookmarkBtn (cfg s2) then addBookmarkBtn s2 else Inr s2) (\<lambda>s3.
            and_then (toggleBottomBtns True s3) (\<lambda>s4.
              case document s4 ''.viewer-one-to-one'' of
                QFound oneToOne \<Rightarrow> Inr (emit BindOneToOne s4)
              | QNull \<Rightarrow> Inr s4
              | QThrows \<Rightarrow> Inl (SyntaxError, s4))))))"

text \<open>\<open>window.scrollTo(x, y)\<close> puts the window at the position it is given.\<close>

definition on_hide :: "world \<Rightarrow> world" where
  "on_hide s =
     emit (ScrollTo (scrollX s) (scrollY s))
       (s\<lparr>showing := False, window_scrollX := scrollX s, window_scrollY := scrollY s\<rparr>)"

definition on_viewed :: "world \<Rightarrow> world" where
  "on_viewed s = (if isFullscreen s then emit (ZoomTo 1) s else s)"

definition on_hidden :: "world \<Rightarrow> world" where
  "on_hidden s = (if isFullscreen s then emit ExitFullscreen s else s)"

text \<open>The \<open>viewed\<close> option of the widget; \<open>index\<close> is \<open>ev.detail.index\<close>.\<close>

definition viewed_option :: "Viewer \<Rightarrow> nat \<Rightarrow> world \<Rightarrow> world" where
  "viewed_option v index s =
     (let s1 = handleCenter s;
          index' = (if int index < v_pageCount v - 1 then index + 1 else index);
          nextImg = replace ''p0'' (page_marker index') (v_firstBigImgURL v)
      in emit (NewImage nextImg) s1)"

definition on_fullscreenchange :: "world \<Rightarrow> world" where
  "on_fullscreenchange s =
     (if myViewer s \<noteq> None \<and> \<not> isFullscreen s then uncaught (toggleBottomBtns True s)
      else s)"

section \<open>Events\<close>

text \<open>
  What happens to an instance after its construction; \<open>DomChanged\<close> is a change of the
  page by anyone (the widget adds its container, the \<open>init\<close> of a newer instance removes
  it). The widget fires its events on
  \<open>viewerUl\<close> only once it exists; on \<open>viewed\<close> the listener added by \<open>addEventListener\<close>
  runs before the \<open>viewed\<close> option, which the widget adds right before it dispatches.
\<close>

datatype event =
    KeyDown KeyboardEvent
  | Shown
  | Hide
  | Viewed nat
  | Hidden
  | FullscreenChanged bool
  | FullscreenGranted
  | SettleTimer
  | Scrolled int int
  | Layout int int
  | ClickDownload
  | ClickBookmark
  | BookmarkSettled
  | BusyChanged bool
  | DomChanged "string \<Rightarrow> query_result"

fun handle :: "event \<Rightarrow> world \<Rightarrow> world" where
  "handle (KeyDown ev) s = keydown ev s"
| "handle Shown s = (case myViewer s of None \<Rightarrow> s | Some v \<Rightarrow> on_shown s)"
| "handle Hide s = (case myViewer s of None \<Rightarrow> s | Some v \<Rightarrow> on_hide s)"
| "handle (Viewed i) s =
     (case myViewer s of None \<Rightarrow> s | Some v \<Rightarrow> viewed_option v i (on_viewed s))"
| "handle Hidden s = (case myViewer s of None \<Rightarrow> s | Some v \<Rightarrow> on_hidden s)"
| "handle (FullscreenChanged b) s = on_fullscreenchange (s\<lparr>fullscreenElement := b\<rparr>)"
| "handle FullscreenGranted s = fullscreen_granted s"
| "handle SettleTimer s = fullscreen_settle s"
| "handle (Scrolled x y) s = s\<lparr>window_scrollX := x, window_scrollY := y\<rparr>"
| "handle (Layout h w) s = s\<lparr>image_height := h, innerHeight := w\<rparr>"
| "handle ClickDownload s = download s"
| "handle ClickBookmark s = addBookmark s"
| "handle BookmarkSettled s = addBookmark_resume s"
| "handle (BusyChanged b) s = s\<lparr>busy := b\<rparr>"
| "handle (DomChanged d) s = s\<lparr>document := d\<rparr>"

definition run :: "event list \<Rightarrow> world \<Rightarrow> world" where
  "run evs s = foldl (\<lambda>a e. handle e a) s evs"

section \<open>Properties\<close>

lemma emit_trace: "trace (emit e s) = trace s @ [e]"
  by (simp add: emit_def)

lemma thumb_loop_eq:
  "thumb_loop conv b u i html = html @ map (thumb_str conv b u) [i..<nat (pageCount b)]"
proof (induction conv b u i html rule: thumb_loop.induct)
  case (1 conv b u i html)
  show ?case
  proof (cases "int i < pageCount b")
    case True
    then have "i < nat (pageCount b)" by linarith
    then have "[i..<nat (pageCount b)] = i # [Suc i..<nat (pageCount b)]"
      by (simp add: upt_conv_Cons)
    with True 1 show ?thesis
      by (subst thumb_loop.simps) simp
  next
    case False
    then have "nat (pageCount b) \<le> i" by linarith
    with False show ?thesis
      by (subst thumb_loop.simps) simp
  qed
qed

lemma replace_absent: "\<not> occurs pat s \<Longrightarrow> replace pat rep s = s"
  by (induction s) auto

lemma replace_split:
  "occurs pat s \<Longrightarrow> \<exists>pre post. s = pre @ pat @ post \<and> (\<forall>rep. replace pat rep s = pre @ rep @ post)"
proof (induction s)
  case Nil
  then show ?case by simp
next
  case (Cons c cs)
  show ?case
  proof (cases "take (length pat) (c # cs) = pat")
    case True
    then have "c # cs = [] @ pat @ drop (length pat) (c # cs)"
      by (metis append_Nil append_take_drop_id)
    moreover from True have "\<forall>rep. replace pat rep (c # cs) = [] @ rep @ drop (length pat) (c # cs)"
      by simp
    ultimately show ?thesis by blast
  next
    case False
    with Cons.prems have "occurs pat cs" by simp
    from Cons.IH[OF this] obtain pre post where
      "cs = pre @ pat @ post" "\<forall>rep. replace pat rep cs = pre @ rep @ post" by blast
    with False have "c # cs = (c # pre) @ pat @ post \<and> (\<forall>rep. replace pat rep (c # cs) = (c # pre) @ rep @ post)"
      by simp
    then show ?thesis by blast
  qed
qed

lemma mount_cases:
  assumes "showImageList (cfg s) \<longrightarrow> document s (insertTarget (cfg s)) \<noteq> QThrows"
  shows "\<exists>s'. mount s = Inr s' \<and> cfg s' = cfg s \<and> myViewer s' = myViewer s
           \<and> viewerUl_innerHTML s' = viewerUl_innerHTML s \<and> loading_show s' = loading_show s
           \<and> workData s' = workData s
           \<and> count_list (trace s') NewViewer = count_list (trace s) NewViewer"
  using assms
  by (cases "document s (insertTarget (cfg s))")
     (auto simp: mount_def emit_def Let_def)

lemma configureViewer_fields:
  "myViewer (configureViewer p u s) = Some \<lparr>v_pageCount = p, v_firstBigImgURL = u\<rparr>"
  "viewerUl_innerHTML (configureViewer p u s) = viewerUl_innerHTML s"
  "cfg (configureViewer p u s) = cfg s"
  "loading_show (configureViewer p u s) = loading_show s"
  "workData (configureViewer p u s) = workData s"
  "count_list (trace (configureViewer p u s)) NewViewer = Suc (count_list (trace s) NewViewer)"
  by (simp_all add: configureViewer_def emit_def Let_def)

lemma digit_code: "k < 10 \<Longrightarrow> of_char (''0123456789'' ! k) = 48 + k"
proof -
  assume "k < 10"
  then have "k = 0 \<or> k = 1 \<or> k = 2 \<or> k = 3 \<or> k = 4 \<or> k = 5 \<or> k = 6 \<or> k = 7 \<or> k = 8 \<or> k = 9"
    by arith
  then show ?thesis by auto
qed

lemma digits_value: "foldl (\<lambda>a c. 10 * a + (of_char c - 48)) 0 (digits n) = n"
proof (induction n rule: digits.induct)
  case (1 n)
  show ?case
  proof (cases "n < 10")
    case True
    then show ?thesis
      by (subst digits.simps) (simp add: digit_code)
  next
    case False
    with 1 have "foldl (\<lambda>a c. 10 * a + (of_char c - 48)) 0 (digits (n div 10)) = n div 10" by simp
    with False show ?thesis
      by (subst digits.simps) (simp add: digit_code)
  qed
qed

lemma page_marker_inj: "page_marker i = page_marker j \<Longrightarrow> i = j"
  by (metis digits_value page_marker_def same_append_eq)

lemma resume_accept:
  assumes "illustType (body d) = 0 \<or> illustType (body d) = 1 \<or> illustType (body d) = 2"
    and "imageNumber (cfg s) \<le> pageCount (body d)"
  shows "createImageList_resume conv (Inr d) s =
     (case mount (if showLoading (cfg s)
          then emit (LoadingShow False)
                 (s\<lparr>workData := Some d,
                    viewerUl_innerHTML :=
                      concat (thumb_loop conv (body d) (big_url (cfg s) (body d)) 0 []),
                    loading_show := False\<rparr>)
          else s\<lparr>workData := Some d,
                 viewerUl_innerHTML :=
                   concat (thumb_loop conv (body d) (big_url (cfg s) (body d)) 0 [])\<rparr>) of
        Inl e \<Rightarrow> Inl e
      | Inr s4 \<Rightarrow> Inr (configureViewer (pageCount (body d)) (big_url (cfg s) (body d)) s4))"
  using assms unfolding createImageList_resume_def Let_def
  by (cases "showLoading (cfg s)") (simp_all cong: sum.case_cong)


lemma mount_innerHTML: "mount s = Inr s' \<Longrightarrow> viewerUl_innerHTML s' = viewerUl_innerHTML s"
  by (auto simp: mount_def emit_def Let_def split: if_splits query_result.splits)

lemmas handler_defs =
  keydown_def keydown_F_def keydown_AltB_def keydown_D_def keydown_arrows_def
  on_shown_def on_hide_def on_viewed_def on_hidden_def viewed_option_def
  on_fullscreenchange_def fullscreen_granted_def fullscreen_settle_def
  enterFullScreenMode_def toggleBottomBtns_def handleCenter_def download_def
  addBtn_def addDownloadBtn_def addBookmarkBtn_def and_then_def uncaught_def
  addBookmark_def addBookmark_resume_def isFullscreen_def

lemma handle_loading: "loading_show (handle e s) = loading_show s"
  by (cases e) (auto simp: handler_defs emit_def Let_def split: option.splits query_result.splits if_splits)

lemma handle_myViewer: "myViewer (handle e s) = myViewer s"
  by (cases e) (auto simp: handler_defs emit_def Let_def split: option.splits query_result.splits if_splits)

lemma handle_scroll:
  "e \<noteq> Shown \<Longrightarrow> scrollX (handle e s) = scrollX s \<and> scrollY (handle e s) = scrollY s"
  by (cases e) (auto simp: handler_defs emit_def Let_def split: option.splits query_result.splits if_splits)

lemma handle_no_loading_effect:
  "[x\<leftarrow>trace (handle e s). \<exists>b. x = LoadingShow b] = [x\<leftarrow>trace s. \<exists>b. x = LoadingShow b]"
  by (cases e) (auto simp: handler_defs emit_def Let_def split: option.splits query_result.splits if_splits)

lemma handle_no_insert_effect:
  "[x\<leftarrow>trace (handle e s). \<exists>t p. x = InsertAdjacentElement t p]
     = [x\<leftarrow>trace s. \<exists>t p. x = InsertAdjacentElement t p]"
  by (cases e) (auto simp: handler_defs emit_def Let_def split: option.splits query_result.splits if_splits)

lemma run_Nil: "run [] s = s"
  by (simp add: run_def)

lemma run_Cons: "run (e # evs) s = run evs (handle e s)"
  by (simp add: run_def)

lemma run_loading: "loading_show (run evs s) = loading_show s"
  by (induction evs arbitrary: s) (simp_all add: run_Nil run_Cons handle_loading)

lemma run_myViewer: "myViewer (run evs s) = myViewer s"
  by (induction evs arbitrary: s) (simp_all add: run_Nil run_Cons handle_myViewer)

lemma run_scroll:
  "Shown \<notin> set evs \<Longrightarrow> scrollX (run evs s) = scrollX s \<and> scrollY (run evs s) = scrollY s"
  by (induction evs arbitrary: s) (auto simp: run_Nil run_Cons handle_scroll)

lemma run_no_loading_effect:
  "[x\<leftarrow>trace (run evs s). \<exists>b. x = LoadingShow b] = [x\<leftarrow>trace s. \<exists>b. x = LoadingShow b]"
  by (induction evs arbitrary: s) (simp_all add: run_Nil run_Cons handle_no_loading_effect)

lemma run_no_insert_effect:
  "[x\<leftarrow>trace (run evs s). \<exists>t p. x = InsertAdjacentElement t p]
     = [x\<leftarrow>trace s. \<exists>t p. x = InsertAdjacentElement t p]"
  by (induction evs arbitrary: s) (simp_all add: run_Nil run_Cons handle_no_insert_effect)

lemma createImageList_waits:
  "showImageList (cfg s) \<Longrightarrow> document s (insertTarget (cfg s)) = QNull \<Longrightarrow>
   createImageList s = Inr (Rescheduled, emit (SetTimeout CbCreateImageList 300) s)"
  by (simp add: createImageList_def)

lemma retry_waits:
  "showImageList (cfg s) \<Longrightarrow> document s (insertTarget (cfg s)) = QNull \<Longrightarrow>
   \<forall>d\<in>set ds. d (insertTarget (cfg s)) = QNull \<Longrightarrow>
   retry ds s = Inr (Rescheduled,
     s\<lparr>document := last (document s # ds),
        trace := trace s @ replicate (Suc (length ds)) (SetTimeout CbCreateImageList 300)\<rparr>)"
proof (induction ds arbitrary: s)
  case Nil
  then show ?case by (simp add: createImageList_waits emit_def)
next
  case (Cons d ds)
  let ?s' = "(emit (SetTimeout CbCreateImageList 300) s)\<lparr>document := d\<rparr>"
  from Cons.prems have "retry (d # ds) s = retry ds ?s'"
    by (simp add: createImageList_waits)
  moreover from Cons.prems have "showImageList (cfg ?s')"
    "document ?s' (insertTarget (cfg ?s')) = QNull"
    "\<forall>d\<in>set ds. d (insertTarget (cfg ?s')) = QNull"
    by (simp_all add: emit_def)
  ultimately have "retry (d # ds) s = Inr (Rescheduled,
     ?s'\<lparr>document := last (document ?s' # ds),
        trace := trace ?s' @ replicate (Suc (length ds)) (SetTimeout CbCreateImageList 300)\<rparr>)"
    using Cons.IH[of ?s'] by simp
  then show ?case
    by (simp add: emit_def replicate_app_Cons_same)
qed

lemma retry_found:
  "showImageList (cfg s) \<Longrightarrow> document s (insertTarget (cfg s)) = QNull \<Longrightarrow>
   \<forall>d\<in>set ds. d (insertTarget (cfg s)) = QNull \<Longrightarrow>
   d' (insertTarget (cfg s)) = QFound t \<Longrightarrow>
   retry (ds @ [d']) s = Inr (AwaitingData,
     prepare (s\<lparr>trace := trace s @ replicate (Suc (length ds)) (SetTimeout CbCreateImageList 300),
        document := d'\<rparr>))"
proof (induction ds arbitrary: s)
  case Nil
  then show ?case
    by (simp add: createImageList_waits) (simp add: createImageList_def emit_def)
next
  case (Cons d ds)
  let ?s' = "(emit (SetTimeout CbCreateImageList 300) s)\<lparr>document := d\<rparr>"
  from Cons.prems have "retry ((d # ds) @ [d']) s = retry (ds @ [d']) ?s'"
    by (simp add: createImageList_waits)
  moreover from Cons.prems have "showImageList (cfg ?s')"
    "document ?s' (insertTarget (cfg ?s')) = QNull"
    "\<forall>d\<in>set ds. d (insertTarget (cfg ?s')) = QNull"
    "d' (insertTarget (cfg ?s')) = QFound t"
    by (simp_all add: emit_def)
  ultimately have "retry ((d # ds) @ [d']) s = Inr (AwaitingData,
     prepare (?s'\<lparr>trace := trace ?s' @ replicate (Suc (length ds)) (SetTimeout CbCreateImageList 300),
        document := d'\<rparr>))"
    using Cons.IH[of ?s'] by simp
  then show ?case
    by (simp add: emit_def replicate_app_Cons_same)
qed

lemma retry_throws:
  "showImageList (cfg s) \<Longrightarrow> document s (insertTarget (cfg s)) = QThrows \<Longrightarrow>
   retry ds s = Inl SyntaxError"
  by (cases ds) (simp_all add: createImageList_def)

lemma retry_hidden_list:
  "\<not> showImageList (cfg s) \<Longrightarrow> retry ds s = Inr (AwaitingData, prepare s)"
  by (cases ds) (simp_all add: createImageList_def)

lemma prepare_fields:
  "cfg (prepare s) = cfg s" "document (prepare s) = document s"
  "myViewer (prepare s) = myViewer s"
  "trace (prepare s) = trace s @ (if showLoading (cfg s) then [LoadingShow True] else [])
                         @ [GetArtworkData (workId (cfg s))]"
  "loading_show (prepare s) = (showLoading (cfg s) \<or> loading_show s)"
  by (simp_all add: prepare_def emit_def Let_def)

lemma resume_hidden_list:
  assumes "\<not> showImageList (cfg s)"
  shows "\<exists>s'. createImageList_resume conv (Inr d) s = Inr s'
          \<and> [x\<leftarrow>trace s'. \<exists>t p. x = InsertAdjacentElement t p]
              = [x\<leftarrow>trace s. \<exists>t p. x = InsertAdjacentElement t p]
          \<and> ((illustType (body d) = 0 \<or> illustType (body d) = 1 \<or> illustType (body d) = 2)
               \<and> imageNumber (cfg s) \<le> pageCount (body d)
             \<longrightarrow> myViewer s' = Some \<lparr>v_pageCount = pageCount (body d),
                                      v_firstBigImgURL = big_url (cfg s) (body d)\<rparr>)"
proof (cases "(illustType (body d) = 0 \<or> illustType (body d) = 1 \<or> illustType (body d) = 2)
               \<and> imageNumber (cfg s) \<le> pageCount (body d)")
  case False
  then show ?thesis
    by (auto simp: createImageList_resume_def Let_def)
next
  case True
  then have "createImageList_resume conv (Inr d) s =
     (case mount (if showLoading (cfg s)
          then emit (LoadingShow False)
                 (s\<lparr>workData := Some d,
                    viewerUl_innerHTML :=
                      concat (thumb_loop conv (body d) (big_url (cfg s) (body d)) 0 []),
                    loading_show := False\<rparr>)
          else s\<lparr>workData := Some d,
                 viewerUl_innerHTML :=
                   concat (thumb_loop conv (body d) (big_url (cfg s) (body d)) 0 [])\<rparr>) of
        Inl e \<Rightarrow> Inl e
      | Inr s4 \<Rightarrow> Inr (configureViewer (pageCount (body d)) (big_url (cfg s) (body d)) s4))"
    by (intro resume_accept) auto
  with assms True show ?thesis
    by (simp add: mount_def emit_def configureViewer_def Let_def)
qed



subsection \<open>The activation gate\<close>



subsection \<open>The download action\<close>

text \<open>
  C4. \<open>download\<close> with the busy flag set shows the failure toast and does nothing else: no
  event is fired and \<open>downloadFromViewer\<close> keeps its value. With the flag clear it sets
  \<open>downloadFromViewer\<close>, fires exactly one \<open>crawlIdList\<close> event carrying the one entry
  \<open>{id: workId, type: 'unknown'}\<close>, and then shows the confirmation toast.
\<close>

theorem download_effects:
  "download s =
     (if busy s then s\<lparr>trace := trace s @ [ToastError MsgTaskNotFinished]\<rparr>
      else s\<lparr>downloadFromViewer := True,
             trace := trace s @ [EvtFire ''crawlIdList'' [(workId (cfg s), ''unknown'')],
                                 ToastShow MsgDownloadRequestSent]\<rparr>)"
  by (simp add: download_def emit_def)

subsection \<open>Centring\<close>

text \<open>
  C8. \<open>handleCenter\<close> moves the image only for media type 1, and only when the displayed
  image is higher than the viewport: then it moves it vertically by
  \<open>(imageHeight - viewportHeight) / 2\<close>. In every other case it does nothing at all.
\<close>

theorem handleCenter_move:
  "handleCenter s =
     (if (\<exists>d. workData s = Some d \<and> illustType (body d) = 1) \<and> innerHeight s < image_height s
      then s\<lparr>trace := trace s @ [Move 0 (of_int (image_height s - innerHeight s) / 2)]\<rparr>
      else s)"
  by (auto simp: handleCenter_def emit_def diff_divide_distrib split: option.splits)

subsection \<open>The thumbnail list\<close>

text \<open>
  C2. For accepted metadata with page count \<open>p \<ge> 1\<close>, the array \<open>html\<close> that
  \<open>createImageList\<close> builds and joins into \<open>viewerUl.innerHTML\<close> has exactly \<open>p\<close> entries;
  the entry at position \<open>i\<close> is the string
  \<open><li><img src="THUMB" data-src="FULL"></li>\<close>, where THUMB is the thumbnail URL of page
  \<open>i\<close> and FULL is the resolved first-page URL with its first \<open>p0\<close> replaced by \<open>p\<close> and the
  digits of \<open>i\<close> (so the indices are 0, 1, ..., p - 1 in order, each once). When the URL
  holds the marker, the full URLs are one prefix and one suffix around the page marker,
  and differ for different pages; when it does not, they are all the URL itself.
\<close>

theorem thumbnail_list:
  assumes "showImageList (cfg s) \<longrightarrow> document s (insertTarget (cfg s)) \<noteq> QThrows"
    and "illustType (body d) = 0 \<or> illustType (body d) = 1 \<or> illustType (body d) = 2"
    and "imageNumber (cfg s) \<le> pageCount (body d)"
    and "1 \<le> pageCount (body d)"
  shows "(\<exists>s'. createImageList_resume conv (Inr d) s = Inr s'
           \<and> viewerUl_innerHTML s' =
               concat (thumb_loop conv (body d) (big_url (cfg s) (body d)) 0 []))
       \<and> int (length (thumb_loop conv (body d) (big_url (cfg s) (body d)) 0 []))
           = pageCount (body d)
       \<and> (\<forall>i<nat (pageCount (body d)).
             thumb_loop conv (body d) (big_url (cfg s) (body d)) 0 [] ! i =
               ''<li><img src=\"'' @ conv (thumb (urls (body d))) i @ ''\" data-src=\"''
                 @ replace ''p0'' (page_marker i) (big_url (cfg s) (body d)) @ ''\"></li>'')
       \<and> (if occurs ''p0'' (big_url (cfg s) (body d))
          then (\<exists>pre post. big_url (cfg s) (body d) = pre @ ''p0'' @ post
                 \<and> (\<forall>i. replace ''p0'' (page_marker i) (big_url (cfg s) (body d))
                         = pre @ page_marker i @ post))
               \<and> inj (\<lambda>i. replace ''p0'' (page_marker i) (big_url (cfg s) (body d)))
          else (\<forall>i. replace ''p0'' (page_marker i) (big_url (cfg s) (body d))
                      = big_url (cfg s) (body d)))"
proof -
  define u where "u = big_url (cfg s) (body d)"
  define html where "html = thumb_loop conv (body d) u 0 []"
  have html: "html = map (thumb_str conv (body d) u) [0..<nat (pageCount (body d))]"
    by (simp add: html_def thumb_loop_eq)
  define s3 where "s3 = (if showLoading (cfg s)
          then emit (LoadingShow False)
                 (s\<lparr>workData := Some d, viewerUl_innerHTML := concat html, loading_show := False\<rparr>)
          else s\<lparr>workData := Some d, viewerUl_innerHTML := concat html\<rparr>)"
  from assms(2,3) have r: "createImageList_resume conv (Inr d) s =
      (case mount s3 of Inl e \<Rightarrow> Inl e
       | Inr s4 \<Rightarrow> Inr (configureViewer (pageCount (body d)) u s4))"
    unfolding s3_def html_def u_def by (rule resume_accept)
  have m3: "viewerUl_innerHTML s3 = concat html" "cfg s3 = cfg s" "document s3 = document s"
    by (simp_all add: s3_def emit_def)
  with assms(1) have "showImageList (cfg s3) \<longrightarrow> document s3 (insertTarget (cfg s3)) \<noteq> QThrows"
    by simp
  from mount_cases[OF this] obtain s4 where m: "mount s3 = Inr s4" by blast
  then have "viewerUl_innerHTML s4 = viewerUl_innerHTML s3"
    by (rule mount_innerHTML)
  with m m3 r have "createImageList_resume conv (Inr d) s
        = Inr (configureViewer (pageCount (body d)) u s4)"
      "viewerUl_innerHTML (configureViewer (pageCount (body d)) u s4) = concat html"
    by (simp_all add: configureViewer_fields)
  then have 1: "\<exists>s'. createImageList_resume conv (Inr d) s = Inr s'
      \<and> viewerUl_innerHTML s' = concat html"
    by blast
  from assms(4) have 2: "int (length html) = pageCount (body d)"
    by (simp add: html)
  have 3: "\<forall>i<nat (pageCount (body d)). html ! i =
      ''<li><img src=\"'' @ conv (thumb (urls (body d))) i @ ''\" data-src=\"''
        @ replace ''p0'' (page_marker i) u @ ''\"></li>''"
    by (simp add: html thumb_str_def li_markup_def)
  have 4: "if occurs ''p0'' u
           then (\<exists>pre post. u = pre @ ''p0'' @ post
                  \<and> (\<forall>i. replace ''p0'' (page_marker i) u = pre @ page_marker i @ post))
                \<and> inj (\<lambda>i. replace ''p0'' (page_marker i) u)
           else (\<forall>i. replace ''p0'' (page_marker i) u = u)"
  proof (cases "occurs ''p0'' u")
    case True
    from replace_split[OF this] obtain pre post where
      sp: "u = pre @ ''p0'' @ post" "\<forall>rep. replace ''p0'' rep u = pre @ rep @ post" by blast
    then have "inj (\<lambda>i. replace ''p0'' (page_marker i) u)"
      by (auto simp: inj_on_def dest: page_marker_inj)
    with sp True show ?thesis by auto
  next
    case False
    then show ?thesis by (simp add: replace_absent)
  qed
  from 1 2 3 4 show ?thesis unfolding u_def html_def by blast
qed

theorem thumbnail_list_witness:
  "\<exists>s'. createImageList_resume (\<lambda>u i. u @ digits i)
          (Inr \<lparr>body = \<lparr>illustType = 0, pageCount = 2,
                  urls = \<lparr>original = ''o_p0.jpg'', regular = [], small = [], thumb = ''t''\<rparr>\<rparr>\<rparr>)
          (new_instance (default_cfg ''1'') (\<lambda>sel. QNull)) = Inr s'
        \<and> viewerUl_innerHTML s' =
            ''<li><img src=\"t0\" data-src=\"o_p0.jpg\"></li><li><img src=\"t1\" data-src=\"o_p1.jpg\"></li>''"
proof -
  let ?s = "new_instance (default_cfg ''1'') (\<lambda>sel. QNull)"
  let ?d = "\<lparr>body = \<lparr>illustType = 0, pageCount = 2,
                  urls = \<lparr>original = ''o_p0.jpg'', regular = [], small = [], thumb = ''t''\<rparr>\<rparr>\<rparr>"
  let ?html = "thumb_loop (\<lambda>u i. u @ digits i) (body ?d) ''o_p0.jpg'' 0 []"
  have h: "showImageList (cfg ?s) \<longrightarrow> document ?s (insertTarget (cfg ?s)) \<noteq> QThrows"
    "illustType (body ?d) = 0 \<or> illustType (body ?d) = 1 \<or> illustType (body ?d) = 2"
    "imageNumber (cfg ?s) \<le> pageCount (body ?d)" "1 \<le> pageCount (body ?d)"
    by (simp_all add: new_instance_def default_cfg_def)
  have u: "big_url (cfg ?s) (body ?d) = ''o_p0.jpg''"
    by (simp add: new_instance_def default_cfg_def big_url_def)
  note t = thumbnail_list [OF h, of "\<lambda>u i. u @ digits i", unfolded u]
  from t [THEN conjunct1]
  obtain s' where r: "createImageList_resume (\<lambda>u i. u @ digits i) (Inr ?d) ?s = Inr s'"
    "viewerUl_innerHTML s' = concat ?html"
    by auto
  from t [THEN conjunct2, THEN conjunct1] have len: "length ?html = 2"
    by simp
  note nth = t [THEN conjunct2, THEN conjunct2, THEN conjunct1]
  have dg: "digits 0 = ''0''" "digits (Suc 0) = ''1''"
    by (simp_all add: digits.simps)
  have lt: "0 < nat (pageCount (body ?d))" "1 < nat (pageCount (body ?d))"
    by simp_all
  from nth [rule_format, OF lt(1)]
  have n0: "?html ! 0 = ''<li><img src=\"t0\" data-src=\"o_p0.jpg\"></li>''"
    by (simp add: page_marker_def dg)
  from nth [rule_format, OF lt(2)]
  have n1: "?html ! 1 = ''<li><img src=\"t1\" data-src=\"o_p1.jpg\"></li>''"
    by (simp add: page_marker_def dg)
  from len have "\<exists>a b. ?html = [a, b]"
    by (auto simp: numeral_2_eq_2 length_Suc_conv)
  then obtain a b where ab: "?html = [a, b]"
    by (elim exE)
  from n0 n1 have "a = ''<li><img src=\"t0\" data-src=\"o_p0.jpg\"></li>''"
    "b = ''<li><img src=\"t1\" data-src=\"o_p1.jpg\"></li>''"
    unfolding ab by simp_all
  then have c: "concat ?html =
      ''<li><img src=\"t0\" data-src=\"o_p0.jpg\"></li><li><img src=\"t1\" data-src=\"o_p1.jpg\"></li>''"
    unfolding ab by simp
  from r(1) r(2) [unfolded c] show ?thesis
    by (intro exI [of _ s'] conjI)
qed

subsection \<open>Where the list is inserted\<close>

text \<open>
  C3. With the default \<open>insertPostion\<close> (\<open>beforeend\<close>), a visible list and a selector that
  resolves to element 7, the container is inserted \<open>beforebegin\<close> of the target: the
  call of \<open>insertAdjacentElement\<close> names that position, the option is not read.
\<close>

theorem insertPostion_ignored:
  "insertPostion (assign (default_cfg ''1'')
       (no_options\<lparr>showImageList_opt := Some True, insertTarget_opt := Some ''main''\<rparr>)) = BeforeEnd
   \<and> (\<exists>s1 s2.
        createImageList (new_instance
            (assign (default_cfg ''1'')
               (no_options\<lparr>showImageList_opt := Some True, insertTarget_opt := Some ''main''\<rparr>))
            (\<lambda>sel. if sel = ''main'' then QFound 7 else QNull)) = Inr (AwaitingData, s1)
      \<and> createImageList_resume (\<lambda>u i. u)
            (Inr \<lparr>body = \<lparr>illustType = 0, pageCount = 2,
                    urls = \<lparr>original = ''o_p0'', regular = [], small = [], thumb = ''t''\<rparr>\<rparr>\<rparr>) s1
          = Inr s2
      \<and> trace s2 = [GetArtworkData ''1'', ThemeRegister, InsertAdjacentElement 7 BeforeBegin,
                     NewViewer, NewImage ''o_p0''])"
  by (simp add: assign_def default_cfg_def no_options_def new_instance_def createImageList_def
      prepare_def emit_def Let_def createImageList_resume_def big_url_def mount_def
      configureViewer_def)

subsection \<open>Waiting for the insertion point\<close>

text \<open>
  C5 does not hold as stated: with \<open>showImageList\<close> set and \<open>insertTarget\<close> left at its
  default, the empty selector, \<open>querySelector\<close> throws and \<open>createImageList\<close> ends with that
  error, at once and without a timer.
\<close>

theorem mount_retry_counterexample:
  "insertTarget (assign (default_cfg ''1'') (no_options\<lparr>showImageList_opt := Some True\<rparr>)) = []
   \<and> createImageList
         (new_instance (assign (default_cfg ''1'') (no_options\<lparr>showImageList_opt := Some True\<rparr>))
            page_without_elements) = Inl SyntaxError
   \<and> retry [page_without_elements, page_without_elements]
         (new_instance (assign (default_cfg ''1'') (no_options\<lparr>showImageList_opt := Some True\<rparr>))
            page_without_elements) = Inl SyntaxError"
  by (simp add: assign_def default_cfg_def no_options_def new_instance_def createImageList_def
      page_without_elements_def)

text \<open>
  C5, amended. With \<open>showImageList\<close> set and a selector for which \<open>querySelector\<close> gives
  \<open>null\<close>, \<open>createImageList\<close> sets a timer of 300 ms for itself and returns; this repeats
  for as many runs as the element stays away (any number: there is no bound and nothing
  cancels the timer), and all it has done by then is set these timers: no metadata is
  asked for and nothing is put on the page. The first run that finds the element goes on
  to the fetch. With a selector on which \<open>querySelector\<close> throws, \<open>createImageList\<close> throws
  and sets no timer. With \<open>showImageList\<close> clear the selector is not looked at: the first
  run goes on to the fetch without a timer, no container is inserted then or by any later
  event, and the widget is configured for metadata that passes the gate of C1.
\<close>

theorem mount_retry:
  "(showImageList (cfg s) \<and> document s (insertTarget (cfg s)) = QNull
      \<and> (\<forall>d\<in>set ds. d (insertTarget (cfg s)) = QNull) \<longrightarrow>
      retry ds s = Inr (Rescheduled,
        s\<lparr>document := last (document s # ds),
           trace := trace s @ replicate (Suc (length ds)) (SetTimeout CbCreateImageList 300)\<rparr>)
      \<and> (\<forall>d' t. d' (insertTarget (cfg s)) = QFound t \<longrightarrow>
           retry (ds @ [d']) s = Inr (AwaitingData,
             prepare (s\<lparr>trace := trace s @ replicate (Suc (length ds)) (SetTimeout CbCreateImageList 300),
               document := d'\<rparr>))))
   \<and> (showImageList (cfg s) \<and> document s (insertTarget (cfg s)) = QThrows \<longrightarrow>
        retry ds s = Inl SyntaxError)
   \<and> (\<not> showImageList (cfg s) \<longrightarrow>
        retry ds s = Inr (AwaitingData, prepare s)
      \<and> trace (prepare s) = trace s @ (if showLoading (cfg s) then [LoadingShow True] else [])
                               @ [GetArtworkData (workId (cfg s))]
      \<and> (\<forall>conv d. \<exists>s'. createImageList_resume conv (Inr d) (prepare s) = Inr s'
            \<and> (\<forall>evs. [x\<leftarrow>trace (run evs s'). \<exists>t p. x = InsertAdjacentElement t p]
                       = [x\<leftarrow>trace s. \<exists>t p. x = InsertAdjacentElement t p])
            \<and> ((illustType (body d) = 0 \<or> illustType (body d) = 1 \<or> illustType (body d) = 2)
                 \<and> imageNumber (cfg s) \<le> pageCount (body d)
               \<longrightarrow> myViewer s' = Some \<lparr>v_pageCount = pageCount (body d),
                                        v_firstBigImgURL = big_url (cfg s) (body d)\<rparr>)))"
proof (intro conjI impI allI)
  assume a: "showImageList (cfg s) \<and> document s (insertTarget (cfg s)) = QNull
      \<and> (\<forall>d\<in>set ds. d (insertTarget (cfg s)) = QNull)"
  then show "retry ds s = Inr (Rescheduled,
        s\<lparr>document := last (document s # ds),
           trace := trace s @ replicate (Suc (length ds)) (SetTimeout CbCreateImageList 300)\<rparr>)"
    by (intro retry_waits) auto
  fix d' t assume "d' (insertTarget (cfg s)) = QFound t"
  with a show "retry (ds @ [d']) s = Inr (AwaitingData,
             prepare (s\<lparr>trace := trace s @ replicate (Suc (length ds)) (SetTimeout CbCreateImageList 300),
               document := d'\<rparr>))"
    by (intro retry_found) auto
next
  assume "showImageList (cfg s) \<and> document s (insertTarget (cfg s)) = QThrows"
  then show "retry ds s = Inl SyntaxError"
    by (intro retry_throws) auto
next
  assume "\<not> showImageList (cfg s)"
  then show "retry ds s = Inr (AwaitingData, prepare s)"
    by (rule retry_hidden_list)
next
  show "trace (prepare s) = trace s @ (if showLoading (cfg s) then [LoadingShow True] else [])
                               @ [GetArtworkData (workId (cfg s))]"
    by (rule prepare_fields)
next
  fix conv d
  assume h: "\<not> showImageList (cfg s)"
  then have "\<not> showImageList (cfg (prepare s))" by (simp add: prepare_fields)
  from resume_hidden_list[OF this, of conv d] obtain s' where
    s': "createImageList_resume conv (Inr d) (prepare s) = Inr s'"
    "[x\<leftarrow>trace s'. \<exists>t p. x = InsertAdjacentElement t p]
       = [x\<leftarrow>trace (prepare s). \<exists>t p. x = InsertAdjacentElement t p]"
    "(illustType (body d) = 0 \<or> illustType (body d) = 1 \<or> illustType (body d) = 2)
               \<and> imageNumber (cfg s) \<le> pageCount (body d)
             \<longrightarrow> myViewer s' = Some \<lparr>v_pageCount = pageCount (body d),
                                      v_firstBigImgURL = big_url (cfg s) (body d)\<rparr>"
    by (auto simp: prepare_fields)
  have "[x\<leftarrow>trace (prepare s). \<exists>t p. x = InsertAdjacentElement t p]
       = [x\<leftarrow>trace s. \<exists>t p. x = InsertAdjacentElement t p]"
    by (simp add: prepare_fields)
  with s' show "\<exists>s'. createImageList_resume conv (Inr d) (prepare s) = Inr s'
            \<and> (\<forall>evs. [x\<leftarrow>trace (run evs s'). \<exists>t p. x = InsertAdjacentElement t p]
                       = [x\<leftarrow>trace s. \<exists>t p. x = InsertAdjacentElement t p])
            \<and> ((illustType (body d) = 0 \<or> illustType (body d) = 1 \<or> illustType (body d) = 2)
                 \<and> imageNumber (cfg s) \<le> pageCount (body d)
               \<longrightarrow> myViewer s' = Some \<lparr>v_pageCount = pageCount (body d),
                                        v_firstBigImgURL = big_url (cfg s) (body d)\<rparr>)"
    by (auto simp: run_no_insert_effect)
qed


theorem mount_retry_witness:
  "(\<exists>s'. retry [\<lambda>sel. QNull, \<lambda>sel. QNull]
           (new_instance ((default_cfg ''1'')\<lparr>showImageList := True, insertTarget := ''main''\<rparr>)
              (\<lambda>sel. QNull)) = Inr (Rescheduled, s')
        \<and> trace s' = [SetTimeout CbCreateImageList 300, SetTimeout CbCreateImageList 300,
                       SetTimeout CbCreateImageList 300])
   \<and> (\<exists>s'. retry [\<lambda>sel. QFound 7]
           (new_instance ((default_cfg ''1'')\<lparr>showImageList := True, insertTarget := ''main''\<rparr>)
              (\<lambda>sel. QNull)) = Inr (AwaitingData, s')
        \<and> trace s' = [SetTimeout CbCreateImageList 300, GetArtworkData ''1''])
   \<and> retry [\<lambda>sel. QFound 7]
         (new_instance ((default_cfg ''1'')\<lparr>showImageList := True, insertTarget := ''a[''\<rparr>)
            (\<lambda>sel. QThrows)) = Inl SyntaxError
   \<and> (\<exists>s'. retry [] (new_instance (default_cfg ''1'') (\<lambda>sel. QThrows)) = Inr (AwaitingData, s')
        \<and> trace s' = [GetArtworkData ''1''])
   \<and> (\<exists>s'. createImageList_resume (\<lambda>u i. u)
           (Inr \<lparr>body = \<lparr>illustType = 2, pageCount = 2,
                   urls = \<lparr>original = ''o_p0'', regular = [], small = [], thumb = ''t''\<rparr>\<rparr>\<rparr>)
           (prepare (new_instance (default_cfg ''1'') (\<lambda>sel. QThrows))) = Inr s'
        \<and> myViewer s' = Some \<lparr>v_pageCount = 2, v_firstBigImgURL = ''o_p0''\<rparr>
        \<and> [x\<leftarrow>trace s'. \<exists>t p. x = InsertAdjacentElement t p] = [])"
proof -
  let ?sA = "new_instance ((default_cfg ''1'')\<lparr>showImageList := True, insertTarget := ''main''\<rparr>)
              (\<lambda>sel. QNull)"
  let ?sB = "new_instance (default_cfg ''1'') (\<lambda>sel. QThrows)"
  let ?ds = "[\<lambda>sel. QNull, \<lambda>sel. QNull] :: (string \<Rightarrow> query_result) list"
  have a: "showImageList (cfg ?sA) \<and> document ?sA (insertTarget (cfg ?sA)) = QNull
      \<and> (\<forall>d\<in>set ?ds. d (insertTarget (cfg ?sA)) = QNull)"
    by (simp add: new_instance_def default_cfg_def)
  have a0: "showImageList (cfg ?sA) \<and> document ?sA (insertTarget (cfg ?sA)) = QNull
      \<and> (\<forall>d\<in>set []. d (insertTarget (cfg ?sA)) = QNull)"
    by (simp add: new_instance_def default_cfg_def)
  have b: "\<not> showImageList (cfg ?sB)"
    by (simp add: new_instance_def default_cfg_def)
  from mount_retry [of ?sA ?ds] a
  have "retry ?ds ?sA = Inr (Rescheduled,
        ?sA\<lparr>document := last (document ?sA # ?ds),
           trace := trace ?sA @ replicate (Suc (length ?ds)) (SetTimeout CbCreateImageList 300)\<rparr>)"
    by blast
  then have 1: "\<exists>s'. retry ?ds ?sA = Inr (Rescheduled, s')
        \<and> trace s' = [SetTimeout CbCreateImageList 300, SetTimeout CbCreateImageList 300,
                       SetTimeout CbCreateImageList 300]"
    by (simp add: new_instance_def)
  from mount_retry [of ?sA "[]"] a0
  have "\<forall>d' t. d' (insertTarget (cfg ?sA)) = QFound t \<longrightarrow>
           retry ([] @ [d']) ?sA = Inr (AwaitingData,
             prepare (?sA\<lparr>trace := trace ?sA @ replicate (Suc (length ([] :: (string \<Rightarrow> query_result) list)))
                                     (SetTimeout CbCreateImageList 300),
               document := d'\<rparr>))"
    by blast
  from this [rule_format, of "\<lambda>sel. QFound 7" 7]
  have 2: "\<exists>s'. retry [\<lambda>sel. QFound 7] ?sA = Inr (AwaitingData, s')
        \<and> trace s' = [SetTimeout CbCreateImageList 300, GetArtworkData ''1'']"
    by (simp add: new_instance_def default_cfg_def prepare_fields)
  from mount_retry [of ?sB "[]"] b
  have "retry [] ?sB = Inr (AwaitingData, prepare ?sB)"
    by blast
  then have 3: "\<exists>s'. retry [] ?sB = Inr (AwaitingData, s') \<and> trace s' = [GetArtworkData ''1'']"
    by (simp add: new_instance_def default_cfg_def prepare_fields)
  let ?d = "\<lparr>body = \<lparr>illustType = 2, pageCount = 2,
                   urls = \<lparr>original = ''o_p0'', regular = [], small = [], thumb = ''t''\<rparr>\<rparr>\<rparr>"
  from mount_retry [of ?sB "[]"] b
  have "\<forall>conv d. \<exists>s'. createImageList_resume conv (Inr d) (prepare ?sB) = Inr s'
            \<and> (\<forall>evs. [x\<leftarrow>trace (run evs s'). \<exists>t p. x = InsertAdjacentElement t p]
                       = [x\<leftarrow>trace ?sB. \<exists>t p. x = InsertAdjacentElement t p])
            \<and> ((illustType (body d) = 0 \<or> illustType (body d) = 1 \<or> illustType (body d) = 2)
                 \<and> imageNumber (cfg ?sB) \<le> pageCount (body d)
               \<longrightarrow> myViewer s' = Some \<lparr>v_pageCount = pageCount (body d),
                                        v_firstBigImgURL = big_url (cfg ?sB) (body d)\<rparr>)"
    by blast
  from this [rule_format, of "\<lambda>u i. u" ?d]
  obtain s' where s': "createImageList_resume (\<lambda>u i. u) (Inr ?d) (prepare ?sB) = Inr s'"
    "\<forall>evs. [x\<leftarrow>trace (run evs s'). \<exists>t p. x = InsertAdjacentElement t p]
                       = [x\<leftarrow>trace ?sB. \<exists>t p. x = InsertAdjacentElement t p]"
    "myViewer s' = Some \<lparr>v_pageCount = 2, v_firstBigImgURL = ''o_p0''\<rparr>"
    by (auto simp: new_instance_def default_cfg_def big_url_def)
  from s'(2) [rule_format, of "[]"]
  have "[x\<leftarrow>trace s'. \<exists>t p. x = InsertAdjacentElement t p] = []"
    by (simp add: run_Nil new_instance_def)
  with s' have 4: "\<exists>s'. createImageList_resume (\<lambda>u i. u) (Inr ?d) (prepare ?sB) = Inr s'
        \<and> myViewer s' = Some \<lparr>v_pageCount = 2, v_firstBigImgURL = ''o_p0''\<rparr>
        \<and> [x\<leftarrow>trace s'. \<exists>t p. x = InsertAdjacentElement t p] = []"
    by blast
  let ?sC = "new_instance ((default_cfg ''1'')\<lparr>showImageList := True, insertTarget := ''a[''\<rparr>)
            (\<lambda>sel. QThrows)"
  have c: "showImageList (cfg ?sC) \<and> document ?sC (insertTarget (cfg ?sC)) = QThrows"
    by (simp add: new_instance_def default_cfg_def)
  from mount_retry [of ?sC "[\<lambda>sel. QFound 7]"] c
  have 5: "retry [\<lambda>sel. QFound 7] ?sC = Inl SyntaxError"
    by blast
  from 1 2 3 4 5 show ?thesis by blast
qed

subsection \<open>The loading indicator\<close>

text \<open>
  C10. With \<open>showLoading\<close> set, \<open>createImageList\<close> switches the loading indicator on
  right before it asks for the metadata. When the gate then denies (media type not 0, 1
  or 2, or too few pages) it returns without switching it off, and no later event
  switches it off either: the indicator stays on.
\<close>

theorem loading_left_on:
  assumes "showLoading (cfg s)"
    and "showImageList (cfg s) \<longrightarrow> (\<exists>t. document s (insertTarget (cfg s)) = QFound t)"
    and "\<not> ((illustType (body d) = 0 \<or> illustType (body d) = 1 \<or> illustType (body d) = 2)
            \<and> imageNumber (cfg s) \<le> pageCount (body d))"
  shows "createImageList s = Inr (AwaitingData, prepare s)
       \<and> trace (prepare s) = trace s @ [LoadingShow True, GetArtworkData (workId (cfg s))]
       \<and> loading_show (prepare s)
       \<and> createImageList_resume conv (Inr d) (prepare s) = Inr ((prepare s)\<lparr>workData := Some d\<rparr>)
       \<and> (\<forall>evs. loading_show (run evs ((prepare s)\<lparr>workData := Some d\<rparr>))
             \<and> [x\<leftarrow>trace (run evs ((prepare s)\<lparr>workData := Some d\<rparr>)). \<exists>b. x = LoadingShow b]
                 = [x\<leftarrow>trace s. \<exists>b. x = LoadingShow b] @ [LoadingShow True])"
proof -
  from assms(2) have 1: "createImageList s = Inr (AwaitingData, prepare s)"
    by (auto simp: createImageList_def)
  from assms(1) have 2: "trace (prepare s) = trace s @ [LoadingShow True, GetArtworkData (workId (cfg s))]"
    and 3: "loading_show (prepare s)"
    by (simp_all add: prepare_fields)
  from assms(3) have 4: "createImageList_resume conv (Inr d) (prepare s)
      = Inr ((prepare s)\<lparr>workData := Some d\<rparr>)"
    by (auto simp: createImageList_resume_def Let_def prepare_fields)
  have 5: "loading_show (run evs ((prepare s)\<lparr>workData := Some d\<rparr>))
        \<and> [x\<leftarrow>trace (run evs ((prepare s)\<lparr>workData := Some d\<rparr>)). \<exists>b. x = LoadingShow b]
            = [x\<leftarrow>trace s. \<exists>b. x = LoadingShow b] @ [LoadingShow True]" for evs
    using 2 3 by (auto simp: run_loading run_no_loading_effect)
  from 1 2 3 4 5 show ?thesis by blast
qed

theorem loading_left_on_witness:
  "\<exists>s1 s2.
      createImageList (new_instance ((default_cfg ''1'')\<lparr>showLoading := True\<rparr>) (\<lambda>sel. QNull))
        = Inr (AwaitingData, s1)
    \<and> createImageList_resume (\<lambda>u i. u)
        (Inr \<lparr>body = \<lparr>illustType = 0, pageCount = 1,
                urls = \<lparr>original = ''o_p0'', regular = [], small = [], thumb = ''t''\<rparr>\<rparr>\<rparr>) s1 = Inr s2
    \<and> loading_show s2
    \<and> trace s2 = [LoadingShow True, GetArtworkData ''1'']"
proof -
  let ?s = "new_instance ((default_cfg ''1'')\<lparr>showLoading := True\<rparr>) (\<lambda>sel. QNull)"
  let ?d = "\<lparr>body = \<lparr>illustType = 0, pageCount = 1,
                urls = \<lparr>original = ''o_p0'', regular = [], small = [], thumb = ''t''\<rparr>\<rparr>\<rparr>"
  have h: "showLoading (cfg ?s)"
    "showImageList (cfg ?s) \<longrightarrow> (\<exists>t. document ?s (insertTarget (cfg ?s)) = QFound t)"
    "\<not> ((illustType (body ?d) = 0 \<or> illustType (body ?d) = 1 \<or> illustType (body ?d) = 2)
            \<and> imageNumber (cfg ?s) \<le> pageCount (body ?d))"
    by (simp_all add: new_instance_def default_cfg_def)
  from loading_left_on [OF h, of "\<lambda>u i. u"]
  have "createImageList ?s = Inr (AwaitingData, prepare ?s)"
    "createImageList_resume (\<lambda>u i. u) (Inr ?d) (prepare ?s) = Inr ((prepare ?s)\<lparr>workData := Some ?d\<rparr>)"
    "loading_show (prepare ?s)"
    "trace (prepare ?s) = trace ?s @ [LoadingShow True, GetArtworkData (workId (cfg ?s))]"
    by blast+
  moreover have "trace ?s = []" "workId (cfg ?s) = ''1''"
    by (simp_all add: new_instance_def default_cfg_def)
  ultimately show ?thesis by simp
qed

subsection \<open>The viewed event\<close>

text \<open>
  C6. When the widget fires \<open>viewed\<close> at image index \<open>i\<close>: the zoom is set to 1 if the
  page is in fullscreen, \<open>handleCenter\<close> runs, and exactly one image is requested, whose
  URL is the first-page URL with the page marker of \<open>i + 1\<close> when \<open>i < pageCount - 1\<close> (and
  of \<open>i\<close> itself at the last page).
\<close>

theorem viewed_preload:
  assumes "myViewer s = Some v"
  shows "handle (Viewed i) s =
           emit (NewImage (replace ''p0''
                   (page_marker (if int i < v_pageCount v - 1 then i + 1 else i))
                   (v_firstBigImgURL v)))
             (handleCenter (if fullscreenElement s then emit (ZoomTo 1) s else s))
       \<and> trace (handle (Viewed i) s) = trace s
           @ (if fullscreenElement s then [ZoomTo 1] else [])
           @ (if (\<exists>d. workData s = Some d \<and> illustType (body d) = 1)
                  \<and> innerHeight s < image_height s
              then [Move 0 (of_int (image_height s - innerHeight s) / 2)] else [])
           @ [NewImage (replace ''p0''
                 (page_marker (if int i < v_pageCount v - 1 then i + 1 else i))
                 (v_firstBigImgURL v))]
       \<and> length [x\<leftarrow>drop (length (trace s)) (trace (handle (Viewed i) s)). \<exists>u. x = NewImage u] = 1"
proof -
  have 1: "handle (Viewed i) s =
           emit (NewImage (replace ''p0''
                   (page_marker (if int i < v_pageCount v - 1 then i + 1 else i))
                   (v_firstBigImgURL v)))
             (handleCenter (if fullscreenElement s then emit (ZoomTo 1) s else s))"
    using assms by (simp add: viewed_option_def on_viewed_def isFullscreen_def Let_def)
  have 2: "trace (handle (Viewed i) s) = trace s
           @ (if fullscreenElement s then [ZoomTo 1] else [])
           @ (if (\<exists>d. workData s = Some d \<and> illustType (body d) = 1)
                  \<and> innerHeight s < image_height s
              then [Move 0 (of_int (image_height s - innerHeight s) / 2)] else [])
           @ [NewImage (replace ''p0''
                 (page_marker (if int i < v_pageCount v - 1 then i + 1 else i))
                 (v_firstBigImgURL v))]"
    unfolding 1 by (auto simp: handleCenter_def emit_def diff_divide_distrib split: option.splits)
  have 3: "length [x\<leftarrow>drop (length (trace s)) (trace (handle (Viewed i) s)). \<exists>u. x = NewImage u] = 1"
    unfolding 2 by simp
  from 1 2 3 show ?thesis by blast
qed

theorem viewed_preload_witness:
  "trace (handle (Viewed 0)
      ((new_instance (default_cfg ''1'') (\<lambda>sel. QNull))
         \<lparr>myViewer := Some \<lparr>v_pageCount = 3, v_firstBigImgURL = ''o_p0.png''\<rparr>,
          fullscreenElement := True\<rparr>))
    = [ZoomTo 1, NewImage ''o_p1.png'']
   \<and> trace (handle (Viewed 2)
      ((new_instance (default_cfg ''1'') (\<lambda>sel. QNull))
         \<lparr>myViewer := Some \<lparr>v_pageCount = 3, v_firstBigImgURL = ''o_p0.png''\<rparr>,
          fullscreenElement := True\<rparr>))
    = [ZoomTo 1, NewImage ''o_p2.png'']"
proof -
  let ?v = "\<lparr>v_pageCount = 3, v_firstBigImgURL = ''o_p0.png''\<rparr>"
  let ?s = "(new_instance (default_cfg ''1'') (\<lambda>sel. QNull))
         \<lparr>myViewer := Some ?v, fullscreenElement := True\<rparr>"
  have h: "myViewer ?s = Some ?v" by simp
  from viewed_preload [OF h, of 0, THEN conjunct2, THEN conjunct1] have "trace (handle (Viewed 0) ?s) = [ZoomTo 1, NewImage ''o_p1.png'']"
    by (simp add: new_instance_def page_marker_def digits.simps)
  moreover
  from viewed_preload [OF h, of 2, THEN conjunct2, THEN conjunct1] have "trace (handle (Viewed 2) ?s) = [ZoomTo 1, NewImage ''o_p2.png'']"
    by (simp add: new_instance_def page_marker_def digits.simps)
  ultimately show ?thesis by blast
qed

subsection \<open>The scroll position\<close>

text \<open>
  C7. The \<open>shown\<close> handler stores the scroll position of the window; whatever happens
  until the next \<open>hide\<close> (keys, fullscreen changes, scrolling by the user or the browser,
  images viewed, clicks), the \<open>hide\<close> handler scrolls the window back to that position.
\<close>

theorem scroll_restored:
  assumes "myViewer s \<noteq> None" and "Shown \<notin> set evs"
  shows "scrollX (handle Shown s) = window_scrollX s
       \<and> scrollY (handle Shown s) = window_scrollY s
       \<and> window_scrollX (handle Hide (run evs (handle Shown s))) = window_scrollX s
       \<and> window_scrollY (handle Hide (run evs (handle Shown s))) = window_scrollY s
       \<and> last (trace (handle Hide (run evs (handle Shown s))))
           = ScrollTo (window_scrollX s) (window_scrollY s)
       \<and> \<not> showing (handle Hide (run evs (handle Shown s)))"
proof -
  from assms(1) have 1: "scrollX (handle Shown s) = window_scrollX s"
    "scrollY (handle Shown s) = window_scrollY s"
    by (auto simp: on_shown_def toggleBottomBtns_def addBtn_def addDownloadBtn_def
        addBookmarkBtn_def and_then_def uncaught_def emit_def Let_def split: query_result.splits)
  let ?s2 = "run evs (handle Shown s)"
  from assms(2) 1 have 2: "scrollX ?s2 = window_scrollX s" "scrollY ?s2 = window_scrollY s"
    by (simp_all add: run_scroll)
  have "myViewer ?s2 = myViewer s"
    by (simp only: run_myViewer handle_myViewer)
  with assms(1) have "myViewer ?s2 \<noteq> None"
    by simp
  then have "handle Hide ?s2 = on_hide ?s2" by auto
  with 1 2 show ?thesis
    by (simp add: on_hide_def emit_def)
qed

theorem scroll_restored_witness:
  "window_scrollX (handle Hide (run
       [KeyDown \<lparr>code = ''KeyF'', altKey = False\<rparr>, FullscreenChanged True, Scrolled 0 0,
        FullscreenChanged False, Scrolled 0 0]
       (handle Shown ((new_instance (default_cfg ''1'') (\<lambda>sel. QNull))
          \<lparr>myViewer := Some \<lparr>v_pageCount = 3, v_firstBigImgURL = ''o_p0.png''\<rparr>,
           window_scrollX := 10, window_scrollY := 250\<rparr>)))) = 10
   \<and> window_scrollY (handle Hide (run
       [KeyDown \<lparr>code = ''KeyF'', altKey = False\<rparr>, FullscreenChanged True, Scrolled 0 0,
        FullscreenChanged False, Scrolled 0 0]
       (handle Shown ((new_instance (default_cfg ''1'') (\<lambda>sel. QNull))
          \<lparr>myViewer := Some \<lparr>v_pageCount = 3, v_firstBigImgURL = ''o_p0.png''\<rparr>,
           window_scrollX := 10, window_scrollY := 250\<rparr>)))) = 250"
proof -
  let ?s = "(new_instance (default_cfg ''1'') (\<lambda>sel. QNull))
          \<lparr>myViewer := Some \<lparr>v_pageCount = 3, v_firstBigImgURL = ''o_p0.png''\<rparr>,
           window_scrollX := 10, window_scrollY := 250\<rparr>"
  let ?evs = "[KeyDown \<lparr>code = ''KeyF'', altKey = False\<rparr>, FullscreenChanged True, Scrolled 0 0,
        FullscreenChanged False, Scrolled 0 0]"
  have h: "myViewer ?s \<noteq> None" "Shown \<notin> set ?evs" by simp_all
  have w: "window_scrollX ?s = 10" "window_scrollY ?s = 250" by simp_all
  from scroll_restored [OF h] show ?thesis unfolding w by blast
qed

subsection \<open>The hotkeys\<close>




end
